theory Spec2Isabelle
  imports Main
begin

section \<open>The S3 downloader of a FastBoot app server (src/index.js)\<close>

text \<open>
  The class \<open>S3Downloader\<close> fetches a pointer document from S3, moves the directory of
  the running app aside, downloads and unzips the new app, and removes the directory
  moved aside. Its methods return promises and talk to S3, the file system and child
  processes; the embedding makes all of that explicit:
  \<^item> the fields of \<open>this\<close> are a record \<open>downloader\<close>, an unset field is \<open>None\<close>;
  \<^item> what is outside the program is a record \<open>world\<close>: the directories on disk and
    the trace of every call that left the program (S3, file system, child process,
    user interface), in order;
  \<^item> the answers of the outside (does the move succeed, does the nth run of a command
    succeed) are a record \<open>env\<close>, which the methods only read;
  \<^item> a promise is its final state: resolved with a value, rejected with an error, or
    never settled (\<open>Pending\<close>);
  \<^item> a method is a function from the downloader and the world to the promise's final
    state, the downloader and the world after it.

  The disk is a map from the name of a directory in the working directory to what the
  directory holds; files (the downloaded archive among them) are not on it. A call to
  the outside that fails leaves the disk as it was. The libraries the module calls
  (Node's \<open>path\<close>, fs-extra behind \<open>fs-promise\<close>, the AWS client, \<open>child_process\<close>) are
  modelled by what they do in the versions the module is packaged with.
\<close>

subsection \<open>JavaScript values and strings\<close>

text \<open>\<open>!v\<close> for a field that holds a string or is undefined.\<close>

definition js_falsy :: "string option \<Rightarrow> bool" where
  "js_falsy v = (case v of None \<Rightarrow> True | Some s \<Rightarrow> s = [])"

text \<open>A field concatenated into a string: \<open>'' + v\<close>.\<close>

definition js_str :: "string option \<Rightarrow> string" where
  "js_str v = (case v of None \<Rightarrow> ''undefined'' | Some s \<Rightarrow> s)"

text \<open>\<open>s.split(c)\<close> for a separator of one character: never the empty array.\<close>

fun js_split :: "char \<Rightarrow> string \<Rightarrow> string list" where
  "js_split c [] = [[]]"
| "js_split c (x # xs) =
     (if x = c then [] # js_split c xs
      else (case js_split c xs of [] \<Rightarrow> [[x]] | y # ys \<Rightarrow> (x # y) # ys))"

text \<open>\<open>a.slice(0, -1)\<close>: all but the last element, the empty array for the empty array.\<close>

definition js_slice_0_m1 :: "'a list \<Rightarrow> 'a list" where
  "js_slice_0_m1 a = take (length a - 1) a"

text \<open>\<open>a.join(c)\<close>.\<close>

fun js_join :: "char \<Rightarrow> string list \<Rightarrow> string" where
  "js_join c [] = []"
| "js_join c [x] = x"
| "js_join c (x # y # ys) = x @ c # js_join c (y # ys)"

text \<open>
  Node's \<open>path.basename(p)\<close> on POSIX: trailing slashes are ignored, the result is what
  follows the last remaining slash.
\<close>

definition path_basename :: "string \<Rightarrow> string" where
  "path_basename p =
     rev (takeWhile (\<lambda>c. c \<noteq> CHR ''/'') (dropWhile (\<lambda>c. c = CHR ''/'') (rev p)))"

text \<open>
  Node's \<open>path.basename(p, ext)\<close>: the base name without the suffix \<open>ext\<close>. The suffix
  is kept when it is the whole base name, except that a path equal to \<open>ext\<close> gives the
  empty string. (The file names that reach \<open>outputPathFor\<close> are base names already:
  they hold no slash.)
\<close>

definition path_basename_ext :: "string \<Rightarrow> string \<Rightarrow> string" where
  "path_basename_ext p ext =
     (if ext = [] \<or> length p < length ext then path_basename p
      else if ext = p then []
      else (let b = path_basename p in
            if length ext < length b \<and> drop (length b - length ext) b = ext
            then take (length b - length ext) b
            else b))"

subsection \<open>The two path functions of the module\<close>

definition holdingPathFor :: "string \<Rightarrow> string" where
  "holdingPathFor path = path @ ''-holding''"

definition outputPathFor :: "string \<Rightarrow> string" where
  "outputPathFor zipPath =
     (let name = path_basename_ext zipPath ''.zip''
      in js_join (CHR ''-'') (js_slice_0_m1 (js_split (CHR ''-'') name)))"

text \<open>
  The derivation in the words of the specification: the file-name portion of the key,
  the trailing \<open>.zip\<close> stripped, split on \<open>-\<close>, the last segment dropped, the rest
  rejoined with \<open>-\<close>.
\<close>

definition spec_strip_zip :: "string \<Rightarrow> string" where
  "spec_strip_zip name =
     (if 4 \<le> length name \<and> drop (length name - 4) name = ''.zip''
      then take (length name - 4) name else name)"

definition spec_outputPath :: "string \<Rightarrow> string" where
  "spec_outputPath key =
     js_join (CHR ''-'') (butlast (js_split (CHR ''-'') (spec_strip_zip (path_basename key))))"

subsection \<open>Promises, errors, the outside world\<close>

datatype error =
    AppNotFoundError
  | S3RequestError
  | JSONSyntaxError
  | TypeError
  | MoveError string string
  | DestExistsError string string
  | RemoveError string
  | StreamError
  | ExecError string
  | UnzipLimitError

datatype 'a promise = Resolved 'a | Rejected error | Pending

text \<open>Every call that leaves the program, in the order the program makes them.\<close>

datatype event =
    S3GetObject "string option" "string option"
  | S3Stream "string option" "string option" string
  | FsMove string string
  | FsRemove string
  | Exec string
  | UiLine string
  | UiError string

text \<open>
  What \<open>getObject\<close> and \<open>JSON.parse\<close> make of the pointer object: the request fails,
  the body is not JSON, or it is a document with the strings \<open>bucket\<close> and \<open>key\<close>.
\<close>

datatype s3_reply = RequestFailed | MalformedBody | ConfigBody string string

type_synonym content = nat

text \<open>
  The answers of the outside during one deployment: \<open>stream_ok env bucket key\<close> tells
  whether the transfer of the artifact completes, and \<open>stream_read_error env bucket key\<close>
  whether a transfer that does not complete fails on the side of S3 (rather than on the
  local file); \<open>proc_ok env command k\<close> tells whether the \<open>k\<close>th run of \<open>command\<close> exits
  without error, \<open>proc_writes env command\<close> which directories a successful run leaves
  behind.
\<close>

record env =
  s3_get :: "string option \<Rightarrow> string option \<Rightarrow> s3_reply"
  stream_ok :: "string option \<Rightarrow> string option \<Rightarrow> bool"
  stream_read_error :: "string option \<Rightarrow> string option \<Rightarrow> bool"
  move_ok :: "string \<Rightarrow> string \<Rightarrow> bool"
  remove_ok :: "string \<Rightarrow> bool"
  proc_ok :: "string \<Rightarrow> nat \<Rightarrow> bool"
  proc_stderr :: "string \<Rightarrow> nat \<Rightarrow> string"
  proc_writes :: "string \<Rightarrow> (string \<rightharpoonup> content)"

record world =
  dirs :: "string \<rightharpoonup> content"
  trace :: "event list"

record downloader =
  configBucket :: "string option"
  configKey :: "string option"
  appBucket :: "string option"
  appKey :: "string option"
  zipPath :: "string option"
  outputPath :: "string option"
  originalPath :: "string option"
  holdingPath :: "string option"

type_synonym 'a step = "downloader \<Rightarrow> world \<Rightarrow> 'a promise \<times> downloader \<times> world"

definition emit :: "event \<Rightarrow> world \<Rightarrow> world" where
  "emit e w = w\<lparr>trace := trace w @ [e]\<rparr>"

text \<open>
  An options object with boolean values, as the module passes to \<open>fsp.move\<close>: the
  option names with their values.
\<close>

type_synonym js_options = "(string \<times> bool) list"

text \<open>
  \<open>fsp.move(src, dst, options)\<close> of the fs-extra that the module's fs-promise brings
  (0.26): the option that lets it replace an existing destination is named \<open>clobber\<close>,
  and no other option name does that. The call fails when \<open>src\<close> does not exist
  (\<open>ENOENT\<close>), when \<open>dst\<close> exists and \<open>clobber\<close> is not set (\<open>EEXIST\<close>, the error
  \<open>DestExistsError\<close>), and when the system refuses the move; otherwise what was at
  \<open>src\<close> is at \<open>dst\<close> afterwards. A failed call changes nothing.
\<close>

definition fsp_move ::
  "env \<Rightarrow> string \<Rightarrow> string \<Rightarrow> js_options \<Rightarrow> world \<Rightarrow> unit promise \<times> world" where
  "fsp_move env src dst options w =
     (let w1 = emit (FsMove src dst) w in
      case dirs w src of
        None \<Rightarrow> (Rejected (MoveError src dst), w1)
      | Some c \<Rightarrow>
          if dirs w dst \<noteq> None \<and> map_of options ''clobber'' \<noteq> Some True
            then (Rejected (DestExistsError src dst), w1)
          else if \<not> move_ok env src dst then (Rejected (MoveError src dst), w1)
          else (Resolved (), w1\<lparr>dirs := ((dirs w)(src := None))(dst \<mapsto> c)\<rparr>))"

text \<open>\<open>fsp.remove(p)\<close>: removing what does not exist succeeds.\<close>

definition fsp_remove :: "env \<Rightarrow> string \<Rightarrow> world \<Rightarrow> unit promise \<times> world" where
  "fsp_remove env p w =
     (let w1 = emit (FsRemove p) w in
      if remove_ok env p then (Resolved (), w1\<lparr>dirs := (dirs w)(p := None)\<rparr>)
      else (Rejected (RemoveError p), w1))"

text \<open>\<open>p.then(() => f())\<close>: \<open>f\<close> runs when \<open>p\<close> resolves, and its promise is the result.\<close>

definition then_do :: "'a step \<Rightarrow> 'b step \<Rightarrow> 'b step" where
  "then_do p f d w =
     (case p d w of
        (Resolved _, d', w') \<Rightarrow> f d' w'
      | (Rejected e, d', w') \<Rightarrow> (Rejected e, d', w')
      | (Pending, d', w') \<Rightarrow> (Pending, d', w'))"

subsection \<open>The methods of \<open>S3Downloader\<close>\<close>

definition maxNumUnzipAttempts :: nat where
  "maxNumUnzipAttempts = 5"

text \<open>The constructor: the configuration is stored, every other field is unset.\<close>

definition new_S3Downloader :: "string option \<Rightarrow> string option \<Rightarrow> downloader" where
  "new_S3Downloader bucket key =
     \<lparr>configBucket = bucket, configKey = key, appBucket = None, appKey = None,
      zipPath = None, outputPath = None, originalPath = None, holdingPath = None\<rparr>"

definition moveOldAppIntoHolding :: "env \<Rightarrow> unit step" where
  "moveOldAppIntoHolding env d w =
     (if js_falsy (outputPath d) then (Resolved (), d, w)
      else
        let d1 = d\<lparr>originalPath := outputPath d\<rparr>;
            d2 = d1\<lparr>holdingPath := Some (holdingPathFor (js_str (outputPath d1)))\<rparr>;
            w1 = emit (UiLine (''moving '' @ js_str (originalPath d2) @ '' to ''
                               @ js_str (holdingPath d2))) w;
            (r, w2) = fsp_move env (js_str (originalPath d2)) (js_str (holdingPath d2))
                        [(''overwrite'', True)] w1
        in (r, d2, w2))"

definition restoreOldAppFromHolding :: "env \<Rightarrow> unit step" where
  "restoreOldAppFromHolding env d w =
     (if js_falsy (originalPath d) \<or> js_falsy (holdingPath d) then (Resolved (), d, w)
      else
        let w1 = emit (UiLine (''moving '' @ js_str (holdingPath d) @ '' to ''
                               @ js_str (originalPath d))) w;
            (r, w2) = fsp_move env (js_str (holdingPath d)) (js_str (originalPath d))
                        [(''overwrite'', True)] w1
        in (r, d, w2))"

definition removeOldApp :: "env \<Rightarrow> unit step" where
  "removeOldApp env d w =
     (if js_falsy (holdingPath d) then (Resolved (), d, w)
      else
        let w1 = emit (UiLine (''removing '' @ js_str (holdingPath d))) w;
            (r, w2) = fsp_remove env (js_str (holdingPath d)) w1
        in (r, d, w2))"

definition fetchCurrentVersion :: "env \<Rightarrow> unit step" where
  "fetchCurrentVersion env d w =
     (let bucket = configBucket d;
          key = configKey d;
          w1 = emit (UiLine (''fetching current app version from '' @ js_str bucket
                             @ ''/'' @ js_str key)) w;
          w2 = emit (S3GetObject bucket key) w1
      in case s3_get env bucket key of
           RequestFailed \<Rightarrow> (Rejected S3RequestError, d, w2)
         | MalformedBody \<Rightarrow> (Rejected JSONSyntaxError, d, w2)
         | ConfigBody b k \<Rightarrow>
             (Resolved (),
              d\<lparr>appBucket := Some b, appKey := Some k,
                zipPath := Some (path_basename k),
                outputPath := Some (outputPathFor (path_basename k))\<rparr>,
              emit (UiLine ''got config'') w2))"

text \<open>
  \<open>fs.createWriteStream(undefined)\<close> throws inside the promise's executor, which
  rejects the promise before anything else happens. Otherwise the handlers decide:
  \<open>pipe(file)\<close> returns the file stream, so \<open>close\<close> and \<open>error\<close> are listened to on
  the file stream only. The promise resolves when the transfer completes and the file
  closes (\<open>stream_ok\<close>), and is rejected when the file stream reports an error. An
  error of the S3 read stream (no such object, a broken transfer:
  \<open>stream_read_error\<close>) has no listener: nothing settles the promise.
\<close>

definition downloadAppZip :: "env \<Rightarrow> unit step" where
  "downloadAppZip env d w =
     (case zipPath d of
        None \<Rightarrow> (Rejected TypeError, d, w)
      | Some z \<Rightarrow>
          let bucket = appBucket d;
              key = appKey d;
              w1 = emit (UiLine (''saving S3 object '' @ js_str bucket @ ''/'' @ js_str key
                                 @ '' to '' @ z)) w;
              w2 = emit (S3Stream bucket key z) w1
          in if stream_ok env bucket key then (Resolved (), d, w2)
             else if stream_read_error env bucket key then (Pending, d, w2)
             else (Rejected StreamError, d, w2))"

text \<open>
  The method \<open>exec(command)\<close>. The number \<open>k\<close> is not an argument of the source: it
  says which run of the command this is, so that the outside can answer a retry
  differently.
\<close>

definition exec_cmd :: "env \<Rightarrow> nat \<Rightarrow> string \<Rightarrow> world \<Rightarrow> unit promise \<times> world" where
  "exec_cmd env k command w =
     (let w1 = emit (Exec command) w in
      if proc_ok env command k
      then (Resolved (), w1\<lparr>dirs := dirs w ++ proc_writes env command\<rparr>)
      else (Rejected (ExecError command),
            emit (UiError (proc_stderr env command k))
              (emit (UiError (''error running command '' @ command)) w1)))"

text \<open>\<open>attemptNumber || 1\<close>.\<close>

definition attempt_or_1 :: "nat option \<Rightarrow> nat" where
  "attempt_or_1 a = (case a of None \<Rightarrow> 1 | Some n \<Rightarrow> if n = 0 then 1 else n)"

text \<open>
  Past the limit, the promise returned is rejected from the \<open>then\<close> of the restoring
  move only: when that move is rejected, nothing settles the promise.
\<close>

function unzipApp :: "env \<Rightarrow> nat option \<Rightarrow> unit step" where
  "unzipApp env a d w =
     (let attemptNumber = attempt_or_1 a in
      if attemptNumber > maxNumUnzipAttempts then
        (case restoreOldAppFromHolding env d w of
           (Resolved _, d', w') \<Rightarrow> (Rejected UnzipLimitError, d', w')
         | (Rejected e, d', w') \<Rightarrow> (Pending, d', w')
         | (Pending, d', w') \<Rightarrow> (Pending, d', w'))
      else
        (case exec_cmd env attemptNumber (''unzip '' @ js_str (zipPath d)) w of
           (Resolved _, w') \<Rightarrow>
             (Resolved (), d, emit (UiLine (''unzipped '' @ js_str (zipPath d))) w')
         | (Rejected e, w') \<Rightarrow> unzipApp env (Some (attemptNumber + 1)) d w'
         | (Pending, w') \<Rightarrow> (Pending, d, w')))"
  by pat_completeness auto
termination
  by (relation "measure (\<lambda>(env, a, d, w). Suc maxNumUnzipAttempts - attempt_or_1 a)")
     (auto simp: attempt_or_1_def maxNumUnzipAttempts_def)

declare unzipApp.simps [simp del]

definition installNPMDependencies :: "env \<Rightarrow> unit step" where
  "installNPMDependencies env d w =
     (case exec_cmd env 1 (''cd '' @ js_str (outputPath d) @ '' && npm install'') w of
        (Resolved _, w') \<Rightarrow> (Resolved (), d, emit (UiLine ''installed npm dependencies'') w')
      | (Rejected e, w') \<Rightarrow>
          (Resolved (), d, emit (UiError ''unable to install npm dependencies'') w')
      | (Pending, w') \<Rightarrow> (Pending, d, w'))"

definition download :: "env \<Rightarrow> string option step" where
  "download env d w =
     (if js_falsy (configBucket d) \<or> js_falsy (configKey d)
      then (Rejected AppNotFoundError, d,
            emit (UiError ''no S3 bucket or key provided; not downloading app'') w)
      else
        then_do (then_do (then_do (then_do (then_do (then_do
          (fetchCurrentVersion env)
          (moveOldAppIntoHolding env))
          (downloadAppZip env))
          (unzipApp env None))
          (removeOldApp env))
          (installNPMDependencies env))
          (\<lambda>d w. (Resolved (outputPath d), d, w)) d w)"

subsection \<open>Reading a trace\<close>

fun is_s3_call :: "event \<Rightarrow> bool" where
  "is_s3_call (S3GetObject b k) = True"
| "is_s3_call (S3Stream b k z) = True"
| "is_s3_call e = False"

fun is_fs_call :: "event \<Rightarrow> bool" where
  "is_fs_call (FsMove s t) = True"
| "is_fs_call (FsRemove p) = True"
| "is_fs_call e = False"

fun is_exec :: "event \<Rightarrow> bool" where
  "is_exec (Exec c) = True"
| "is_exec e = False"

fun is_ui :: "event \<Rightarrow> bool" where
  "is_ui (UiLine s) = True"
| "is_ui (UiError s) = True"
| "is_ui e = False"

text \<open>The events a step added to the trace, and among them the calls to the outside.\<close>

definition new_events :: "world \<Rightarrow> world \<Rightarrow> event list" where
  "new_events w w' = drop (length (trace w)) (trace w')"

definition calls :: "world \<Rightarrow> world \<Rightarrow> event list" where
  "calls w w' = filter (\<lambda>e. \<not> is_ui e) (new_events w w')"

text \<open>What a failed run of a command leaves in the trace.\<close>

definition failed_run :: "env \<Rightarrow> string \<Rightarrow> nat \<Rightarrow> event list" where
  "failed_run env command k =
     [Exec command, UiError (''error running command '' @ command),
      UiError (proc_stderr env command k)]"

definition failed_runs :: "env \<Rightarrow> string \<Rightarrow> nat list \<Rightarrow> event list" where
  "failed_runs env command ks = concat (map (failed_run env command) ks)"

text \<open>
  Commit is the removal of a directory; rollback is the move from the recorded holding
  path to the recorded original path.
\<close>

fun is_commit :: "event \<Rightarrow> bool" where
  "is_commit (FsRemove p) = True"
| "is_commit e = False"

fun is_rollback :: "downloader \<Rightarrow> event \<Rightarrow> bool" where
  "is_rollback d (FsMove s t) = (holdingPath d = Some s \<and> originalPath d = Some t)"
| "is_rollback d e = False"

definition undo_count :: "downloader \<Rightarrow> event list \<Rightarrow> nat" where
  "undo_count d es = length (filter (\<lambda>e. is_commit e \<or> is_rollback d e) es)"

subsection \<open>Concrete deployments\<close>

text \<open>
  The pointer document names the artifact \<open>releases/app-aaaa1111.zip\<close>, which unpacks
  to the directory \<open>app\<close>. In \<open>env_ok\<close> every call to the outside succeeds; the
  other environments differ from it in one answer each.
\<close>

definition env_ok :: env where
  "env_ok =
     \<lparr>s3_get = (\<lambda>b k. ConfigBody ''b'' ''releases/app-aaaa1111.zip''),
      stream_ok = (\<lambda>b k. True),
      stream_read_error = (\<lambda>b k. False),
      move_ok = (\<lambda>s t. True),
      remove_ok = (\<lambda>p. True),
      proc_ok = (\<lambda>c k. True),
      proc_stderr = (\<lambda>c k. []),
      proc_writes = (\<lambda>c. if c = ''unzip app-aaaa1111.zip'' then [''app'' \<mapsto> 2] else Map.empty)\<rparr>"

definition env_commit_fails :: env where
  "env_commit_fails = env_ok\<lparr>remove_ok := (\<lambda>p. False)\<rparr>"

definition env_download_fails :: env where
  "env_download_fails = env_ok\<lparr>stream_ok := (\<lambda>b k. False)\<rparr>"

definition env_s3_read_fails :: env where
  "env_s3_read_fails =
     env_ok\<lparr>stream_ok := (\<lambda>b k. False), stream_read_error := (\<lambda>b k. True)\<rparr>"

definition env_unzip_fails :: env where
  "env_unzip_fails = env_ok\<lparr>proc_ok := (\<lambda>c k. False)\<rparr>"

definition env_rollback_fails :: env where
  "env_rollback_fails =
     env_ok\<lparr>proc_ok := (\<lambda>c k. False), move_ok := (\<lambda>s t. s = ''app'')\<rparr>"

definition env_no_dash :: env where
  "env_no_dash = env_ok\<lparr>s3_get := (\<lambda>b k. ConfigBody ''b'' ''releases/app.zip'')\<rparr>"

definition downloader0 :: downloader where
  "downloader0 = new_S3Downloader (Some ''config-bucket'') (Some ''pointer.json'')"

text \<open>The disk of a first deployment, and of a redeployment over a running app.\<close>

definition world_first :: world where
  "world_first = \<lparr>dirs = Map.empty, trace = []\<rparr>"

definition world_redeploy :: world where
  "world_redeploy = \<lparr>dirs = [''app'' \<mapsto> 1], trace = []\<rparr>"

text \<open>The downloader and the disk after a successful stage of \<open>app\<close>.\<close>

definition downloader_staged :: downloader where
  "downloader_staged =
     downloader0\<lparr>appBucket := Some ''b'', appKey := Some ''releases/app-aaaa1111.zip'',
                 zipPath := Some ''app-aaaa1111.zip'', outputPath := Some ''app'',
                 originalPath := Some ''app'', holdingPath := Some ''app-holding''\<rparr>"

definition world_staged :: world where
  "world_staged = \<lparr>dirs = [''app-holding'' \<mapsto> 1], trace = []\<rparr>"

text \<open>A disk with a running app and a directory left at the holding path.\<close>

definition world_stale_holding :: world where
  "world_stale_holding = \<lparr>dirs = [''app'' \<mapsto> 1, ''app-holding'' \<mapsto> 7], trace = []\<rparr>"

text \<open>A disk with the old app in holding and a directory at the original path.\<close>

definition world_partial_app :: world where
  "world_partial_app = \<lparr>dirs = [''app-holding'' \<mapsto> 1, ''app'' \<mapsto> 9], trace = []\<rparr>"

definition env_third_then_commit_fails :: env where
  "env_third_then_commit_fails = env_ok\<lparr>proc_ok := (\<lambda>c k. 3 \<le> k), remove_ok := (\<lambda>p. False)\<rparr>"

section \<open>Properties\<close>

subsection \<open>Strings and paths\<close>

lemma js_join_split: "js_join c (js_split c s) = s"
proof (induction s)
  case Nil
  show ?case by simp
next
  case (Cons x xs)
  show ?case
  proof (cases "js_split c xs")
    case Nil
    with Cons show ?thesis by simp
  next
    case (Cons y ys)
    with Cons.IH show ?thesis by (cases ys) auto
  qed
qed

lemma js_split_not_Nil: "js_split c s \<noteq> []"
  by (induction s) (auto split: list.splits)

lemma js_split_no_sep: "c \<notin> set s \<Longrightarrow> js_split c s = [s]"
  by (induction s) auto

lemma js_split_append_sep:
  "c \<notin> set h \<Longrightarrow> js_split c (s @ c # h) = js_split c s @ [h]"
proof (induction s)
  case Nil
  then show ?case by (simp add: js_split_no_sep)
next
  case (Cons x xs)
  then show ?case
    using js_split_not_Nil [of c xs] by (auto split: list.splits)
qed

lemma js_slice_0_m1_butlast: "js_slice_0_m1 a = butlast a"
  by (simp add: js_slice_0_m1_def butlast_conv_take)

lemma path_basename_no_slash: "CHR ''/'' \<notin> set n \<Longrightarrow> path_basename n = n"
proof -
  assume a: "CHR ''/'' \<notin> set n"
  then have 1: "dropWhile (\<lambda>c. c = CHR ''/'') (rev n) = rev n"
    by (cases "rev n") auto
  from a have 2: "takeWhile (\<lambda>c. c \<noteq> CHR ''/'') (rev n) = rev n"
    by (intro takeWhile_eq_all_conv[THEN iffD2]) auto
  show ?thesis by (simp add: path_basename_def 1 2)
qed

lemma path_basename_slash_free: "CHR ''/'' \<notin> set (path_basename p)"
  unfolding path_basename_def
  by (auto dest: set_takeWhileD)

lemma path_basename_ext_zip:
  assumes "CHR ''/'' \<notin> set n"
  shows "path_basename_ext n ''.zip'' = spec_strip_zip n"
proof -
  have L: "length ''.zip'' = (4::nat)" by simp
  show ?thesis
  proof (cases "n = ''.zip''")
    case True
    then show ?thesis by (simp add: path_basename_ext_def spec_strip_zip_def)
  next
    case False
    have "length n = 4 \<Longrightarrow> drop (length n - 4) n \<noteq> ''.zip''"
      using False by simp
    then show ?thesis
      unfolding path_basename_ext_def spec_strip_zip_def Let_def
        path_basename_no_slash [OF assms] L
      using False by (auto simp: le_less)
  qed
qed

lemma outputPathFor_spec: "outputPathFor (path_basename key) = spec_outputPath key"
  by (simp add: outputPathFor_def spec_outputPath_def js_slice_0_m1_butlast
      path_basename_ext_zip path_basename_slash_free)

lemma outputPathFor_stem_hash:
  assumes "CHR ''-'' \<notin> set hash" "CHR ''/'' \<notin> set (stem @ hash)"
  shows "outputPathFor (stem @ ''-'' @ hash @ ''.zip'') = stem"
proof -
  let ?n = "stem @ ''-'' @ hash @ ''.zip''"
  have "CHR ''/'' \<notin> set ?n" using assms by auto
  then have "path_basename_ext ?n ''.zip'' = spec_strip_zip ?n"
    by (rule path_basename_ext_zip)
  also have "\<dots> = stem @ CHR ''-'' # hash"
    by (simp add: spec_strip_zip_def)
  finally have "path_basename_ext ?n ''.zip'' = stem @ CHR ''-'' # hash" .
  then show ?thesis
    using assms(1)
    by (simp add: outputPathFor_def js_slice_0_m1_butlast js_split_append_sep js_join_split)
qed


subsection \<open>The unzip retries\<close>

lemma unzipApp_limit:
  "maxNumUnzipAttempts < attempt_or_1 a \<Longrightarrow>
   unzipApp env a d w =
     (case restoreOldAppFromHolding env d w of
        (Resolved u, d', w') \<Rightarrow> (Rejected UnzipLimitError, d', w')
      | (Rejected e, d', w') \<Rightarrow> (Pending, d', w')
      | (Pending, d', w') \<Rightarrow> (Pending, d', w'))"
  by (subst unzipApp.simps) simp

lemma unzipApp_ok:
  "attempt_or_1 a \<le> maxNumUnzipAttempts \<Longrightarrow>
   proc_ok env (''unzip '' @ js_str (zipPath d)) (attempt_or_1 a) \<Longrightarrow>
   unzipApp env a d w =
     (Resolved (), d,
      w\<lparr>dirs := dirs w ++ proc_writes env (''unzip '' @ js_str (zipPath d)),
        trace := trace w @ [Exec (''unzip '' @ js_str (zipPath d)),
                            UiLine (''unzipped '' @ js_str (zipPath d))]\<rparr>)"
  by (subst unzipApp.simps) (simp add: exec_cmd_def emit_def Let_def)

lemma unzipApp_fail:
  "attempt_or_1 a \<le> maxNumUnzipAttempts \<Longrightarrow>
   \<not> proc_ok env (''unzip '' @ js_str (zipPath d)) (attempt_or_1 a) \<Longrightarrow>
   unzipApp env a d w =
     unzipApp env (Some (attempt_or_1 a + 1)) d
       (w\<lparr>trace := trace w @ failed_run env (''unzip '' @ js_str (zipPath d)) (attempt_or_1 a)\<rparr>)"
  by (subst unzipApp.simps) (simp add: exec_cmd_def emit_def Let_def failed_run_def)




subsection \<open>Unfolding the methods\<close>

lemmas step_defs = download_def then_do_def fetchCurrentVersion_def moveOldAppIntoHolding_def
  downloadAppZip_def removeOldApp_def restoreOldAppFromHolding_def installNPMDependencies_def
  exec_cmd_def fsp_move_def fsp_remove_def emit_def js_falsy_def js_str_def holdingPathFor_def

lemmas fixture_defs = env_ok_def env_commit_fails_def env_download_fails_def env_unzip_fails_def
  env_rollback_fails_def env_no_dash_def downloader0_def world_first_def
  world_redeploy_def new_S3Downloader_def downloader_staged_def world_staged_def
  env_s3_read_fails_def world_stale_holding_def world_partial_app_def
  env_third_then_commit_fails_def

lemma path_basename_app: "path_basename ''releases/app-aaaa1111.zip'' = ''app-aaaa1111.zip''"
  by (simp add: path_basename_def)

lemma outputPathFor_app: "outputPathFor ''app-aaaa1111.zip'' = ''app''"
  by (simp add: outputPathFor_def path_basename_ext_def path_basename_def js_slice_0_m1_def)

section \<open>The claims\<close>

text \<open>
  C5. For every artifact key, the derived output path is the file-name portion of the
  key with the trailing \<open>.zip\<close> stripped and the last \<open>-\<close>-delimited segment removed,
  the remaining segments rejoined with \<open>-\<close>: the function of the code agrees with the
  derivation in the words of the specification on every key, and a file name
  \<open>stem-hash.zip\<close> yields \<open>stem\<close> (so \<open>foo-bar-deadbeef.zip\<close> yields \<open>foo-bar\<close>). The result
  depends on the file name alone.
\<close>

theorem outputPathFor_drops_last_segment:
  "outputPathFor (path_basename key) = spec_outputPath key \<and>
   (CHR ''-'' \<notin> set hash \<and> CHR ''/'' \<notin> set (stem @ hash) \<longrightarrow>
      outputPathFor (stem @ ''-'' @ hash @ ''.zip'') = stem)"
  using outputPathFor_spec outputPathFor_stem_hash by blast

theorem outputPathFor_drops_last_segment_witness:
  "outputPathFor (path_basename ''releases/foo-bar-deadbeef.zip'')
     = spec_outputPath ''releases/foo-bar-deadbeef.zip'' \<and>
   CHR ''-'' \<notin> set ''deadbeef'' \<and> CHR ''/'' \<notin> set (''foo-bar'' @ ''deadbeef'') \<and>
   outputPathFor ''foo-bar-deadbeef.zip'' = ''foo-bar''"
  using outputPathFor_drops_last_segment
    [of "''releases/foo-bar-deadbeef.zip''" "''deadbeef''" "''foo-bar''"]
  by simp

text \<open>
  C7. When the configured bucket or key is empty or missing, \<open>download\<close> is rejected at
  once with the configuration error (\<open>AppNotFoundError\<close>): the only thing it does is
  write one error line to the user interface. No call reaches S3, the file system or a
  child process, and the directories on disk and the downloader are as before.
\<close>

theorem download_without_config_fails_fast:
  assumes "js_falsy (configBucket d) \<or> js_falsy (configKey d)"
  shows "case download env d w of (r, d', w') \<Rightarrow>
           r = Rejected AppNotFoundError \<and> d' = d \<and> dirs w' = dirs w \<and>
           new_events w w' = [UiError ''no S3 bucket or key provided; not downloading app''] \<and>
           filter is_s3_call (new_events w w') = [] \<and> calls w w' = []"
  using assms by (simp add: download_def emit_def new_events_def calls_def)

theorem download_without_config_fails_fast_witness:
  "js_falsy (configKey (new_S3Downloader (Some ''config-bucket'') (Some []))) \<and>
   (case download env_ok (new_S3Downloader (Some ''config-bucket'') (Some [])) world_redeploy of
      (r, d', w') \<Rightarrow>
           r = Rejected AppNotFoundError \<and> dirs w' = dirs world_redeploy \<and>
           filter is_s3_call (new_events world_redeploy w') = [] \<and>
           calls world_redeploy w' = [])"
  using download_without_config_fails_fast
    [where d = "new_S3Downloader (Some ''config-bucket'') (Some [])"
       and env = env_ok and w = world_redeploy]
  by (simp add: new_S3Downloader_def js_falsy_def split: prod.splits)

subsection \<open>The stage and the download of the artifact\<close>

text \<open>
  With an empty (or unset) output path the stage operation is skipped; with nothing
  recorded, so are commit and rollback.
\<close>

lemma stage_skipped_for_empty_outputPath:
  assumes "js_falsy (outputPath d)"
  shows "moveOldAppIntoHolding env d w = (Resolved (), d, w) \<and>
         (js_falsy (holdingPath d) \<longrightarrow>
            removeOldApp env d w = (Resolved (), d, w) \<and>
            restoreOldAppFromHolding env d w = (Resolved (), d, w))"
  using assms
  by (simp add: moveOldAppIntoHolding_def removeOldApp_def restoreOldAppFromHolding_def)

text \<open>
  A stage that succeeds leaves the state the unpack operation starts from: both paths
  recorded, the old app at the holding path, nothing at the original path.
\<close>

lemma stage_establishes_staged_state:
  assumes "outputPath d = Some out" and "out \<noteq> []"
    and "moveOldAppIntoHolding env d w = (Resolved u, d', w')"
  shows "originalPath d' = Some out \<and> holdingPath d' = Some (holdingPathFor out) \<and>
         dirs w' out = None \<and> dirs w' (holdingPathFor out) = dirs w out \<and>
         dirs w out \<noteq> None \<and> dirs w (holdingPathFor out) = None"
  using assms
  by (auto simp: moveOldAppIntoHolding_def fsp_move_def emit_def js_falsy_def js_str_def
      holdingPathFor_def Let_def split: option.splits if_splits)

text \<open>
  The module passes \<open>{overwrite: true}\<close> to both moves, an option the library does not
  know: a move onto an existing directory is rejected and changes nothing.
\<close>

lemma move_onto_existing_directory_is_rejected:
  assumes "dirs w src = Some c" and "dirs w dst = Some c'"
  shows "fsp_move env src dst [(''overwrite'', True)] w
           = (Rejected (DestExistsError src dst), emit (FsMove src dst) w)"
  using assms by (simp add: fsp_move_def)

text \<open>
  When the transfer of the artifact does not complete after a stage that succeeded,
  no rollback follows: the only call to the file system is the move into holding and
  the old app stays at the holding path. The promise of \<open>download\<close> is rejected when
  the local file stream failed, and is never settled when the failure is on the side
  of S3.
\<close>

lemma download_failure_never_rolls_back:
  assumes "\<not> js_falsy (configBucket d)" and "\<not> js_falsy (configKey d)"
    and "s3_get env (configBucket d) (configKey d) = ConfigBody b k"
    and "outputPathFor (path_basename k) = out" and "out \<noteq> []"
    and "dirs w out = Some old" and "dirs w (holdingPathFor out) = None"
    and "move_ok env out (holdingPathFor out)"
    and "\<not> stream_ok env (Some b) (Some k)"
  shows "case download env d w of (r, d', w') \<Rightarrow>
           r = (if stream_read_error env (Some b) (Some k) then Pending
                else Rejected StreamError) \<and>
           dirs w' (holdingPathFor out) = Some old \<and> dirs w' out = None \<and>
           filter is_fs_call (new_events w w') = [FsMove out (holdingPathFor out)] \<and>
           holdingPath d' = Some (holdingPathFor out)"
  using assms by (simp add: step_defs new_events_def Let_def)

lemma file_stream_failure_rejects_download:
  "case download env_download_fails downloader0 world_redeploy of (r, d', w') \<Rightarrow>
     r = Rejected StreamError \<and>
     filter is_fs_call (new_events world_redeploy w') = [FsMove ''app'' ''app-holding''] \<and>
     dirs w' ''app-holding'' = Some 1 \<and> dirs w' ''app'' = None"
  by (simp add: step_defs fixture_defs path_basename_app outputPathFor_app new_events_def Let_def)

text \<open>
  C9, at the failing input: the old app is staged and the transfer of the artifact
  fails on the side of S3 (no such object, a broken transfer). No rollback takes place
  and the old app stays in holding, as the claim says; but the \<open>error\<close> handler sits on
  the file stream, so the promise of \<open>download\<close> is never settled and no fatal error
  reaches the caller.
\<close>

theorem s3_failure_after_stage_never_settles:
  "case download env_s3_read_fails downloader0 world_redeploy of (r, d', w') \<Rightarrow>
     r = Pending \<and>
     calls world_redeploy w' =
       [S3GetObject (Some ''config-bucket'') (Some ''pointer.json''),
        FsMove ''app'' ''app-holding'',
        S3Stream (Some ''b'') (Some ''releases/app-aaaa1111.zip'') ''app-aaaa1111.zip''] \<and>
     dirs w' ''app-holding'' = Some 1 \<and> dirs w' ''app'' = None"
  by (simp add: step_defs fixture_defs path_basename_app outputPathFor_app new_events_def
      calls_def Let_def)

text \<open>
  C10, at the failing input: a directory already exists at the holding path when the
  app is staged, and a directory already exists at the original path when the old app
  is rolled back. The module asks for the overwrite with \<open>{overwrite: true}\<close>, which
  the library ignores: both moves are rejected, nothing is overwritten, and a
  deployment over such a disk is rejected at the stage.
\<close>

theorem moves_onto_existing_directories_are_rejected:
  "(case moveOldAppIntoHolding env_ok (downloader0\<lparr>outputPath := Some ''app''\<rparr>)
           world_stale_holding of
      (r, d', w') \<Rightarrow>
        r = Rejected (DestExistsError ''app'' ''app-holding'') \<and>
        dirs w' ''app-holding'' = Some 7 \<and> dirs w' ''app'' = Some 1) \<and>
   (case restoreOldAppFromHolding env_ok downloader_staged world_partial_app of
      (r, d', w') \<Rightarrow>
        r = Rejected (DestExistsError ''app-holding'' ''app'') \<and>
        dirs w' ''app'' = Some 9 \<and> dirs w' ''app-holding'' = Some 1) \<and>
   fst (download env_ok downloader0 world_stale_holding)
     = Rejected (DestExistsError ''app'' ''app-holding'')"
  by (simp add: step_defs fixture_defs path_basename_app outputPathFor_app Let_def)

text \<open>
  C2, at the failing input: a first deployment, with nothing at \<open>app\<close>. The fetch has
  set the output path before the stage runs, so the guard of the stage does not skip
  it: the holding path is recorded, the move is called on a directory that does not
  exist, and its failure rejects the deployment.
\<close>

theorem first_deployment_attempts_the_move:
  "case download env_ok downloader0 world_first of (r, d', w') \<Rightarrow>
     dirs world_first ''app'' = None \<and> outputPath d' = Some ''app'' \<and>
     holdingPath d' = Some ''app-holding'' \<and>
     filter is_fs_call (new_events world_first w') = [FsMove ''app'' ''app-holding''] \<and>
     r = Rejected (MoveError ''app'' ''app-holding'')"
  by (simp add: step_defs fixture_defs path_basename_app outputPathFor_app new_events_def Let_def)

text \<open>
  C4, at the failing input: the old app is staged, the five runs of \<open>unzip\<close> fail, and
  the system refuses the move back. The rollback was attempted after the fifth run, but
  the promise of \<open>download\<close> is never settled: no error reaches the caller.
\<close>

theorem unzip_exhausted_and_rollback_refused_never_settles:
  "case download env_rollback_fails downloader0 world_redeploy of (r, d', w') \<Rightarrow>
     r = Pending \<and>
     filter is_fs_call (new_events world_redeploy w')
       = [FsMove ''app'' ''app-holding'', FsMove ''app-holding'' ''app''] \<and>
     length (filter is_exec (new_events world_redeploy w')) = 5 \<and>
     dirs w' ''app'' = None \<and> dirs w' ''app-holding'' = Some 1"
  by (simp add: step_defs fixture_defs path_basename_app outputPathFor_app new_events_def
      unzipApp_fail unzipApp_limit failed_run_def attempt_or_1_def maxNumUnzipAttempts_def Let_def)

subsection \<open>More on the unzip retries and on chaining\<close>

lemma unzipApp_first_success:
  assumes "attempt_or_1 a \<le> n" and "n \<le> maxNumUnzipAttempts"
    and "\<And>k. attempt_or_1 a \<le> k \<Longrightarrow> k < n \<Longrightarrow>
               \<not> proc_ok env (''unzip '' @ js_str (zipPath d)) k"
    and "proc_ok env (''unzip '' @ js_str (zipPath d)) n"
  shows "unzipApp env a d w =
     (Resolved (), d,
      w\<lparr>dirs := dirs w ++ proc_writes env (''unzip '' @ js_str (zipPath d)),
        trace := trace w @ failed_runs env (''unzip '' @ js_str (zipPath d)) [attempt_or_1 a..<n]
                 @ [Exec (''unzip '' @ js_str (zipPath d)),
                    UiLine (''unzipped '' @ js_str (zipPath d))]\<rparr>)"
  using assms
proof (induction "n - attempt_or_1 a" arbitrary: a w)
  case 0
  then have "attempt_or_1 a = n" by simp
  with 0 show ?case by (simp add: unzipApp_ok failed_runs_def)
next
  case (Suc m)
  let ?n = "attempt_or_1 a"
  let ?cmd = "''unzip '' @ js_str (zipPath d)"
  from Suc.hyps(2) have lt: "?n < n" by simp
  then have le: "?n \<le> maxNumUnzipAttempts" using Suc.prems(2) by simp
  have nok: "\<not> proc_ok env ?cmd ?n" using Suc.prems(3) lt by simp
  have a': "attempt_or_1 (Some (?n + 1)) = Suc ?n" by (simp add: attempt_or_1_def)
  have m: "m = n - attempt_or_1 (Some (?n + 1))" using Suc.hyps(2) a' by simp
  have step: "unzipApp env a d w =
      unzipApp env (Some (?n + 1)) d (w\<lparr>trace := trace w @ failed_run env ?cmd ?n\<rparr>)"
    using le nok by (rule unzipApp_fail)
  have "unzipApp env (Some (?n + 1)) d (w\<lparr>trace := trace w @ failed_run env ?cmd ?n\<rparr>) =
     (Resolved (), d,
      (w\<lparr>trace := trace w @ failed_run env ?cmd ?n\<rparr>)
        \<lparr>dirs := dirs (w\<lparr>trace := trace w @ failed_run env ?cmd ?n\<rparr>) ++ proc_writes env ?cmd,
         trace := trace (w\<lparr>trace := trace w @ failed_run env ?cmd ?n\<rparr>)
                 @ failed_runs env ?cmd [attempt_or_1 (Some (?n + 1))..<n]
                 @ [Exec ?cmd, UiLine (''unzipped '' @ js_str (zipPath d))]\<rparr>)"
  proof (rule Suc.hyps(1) [OF m])
    show "attempt_or_1 (Some (?n + 1)) \<le> n" using lt a' by simp
    show "n \<le> maxNumUnzipAttempts" by fact
    show "proc_ok env ?cmd n" by fact
  next
    fix k assume "attempt_or_1 (Some (?n + 1)) \<le> k" "k < n"
    then show "\<not> proc_ok env ?cmd k" using Suc.prems(3) [of k] a' by simp
  qed
  moreover have "[?n..<n] = ?n # [Suc ?n..<n]"
    using lt by (simp add: upt_conv_Cons)
  ultimately show ?case
    using step a' by (simp add: failed_runs_def)
qed

lemma restore_frame:
  "case restoreOldAppFromHolding env d w of (r, d', w') \<Rightarrow>
     d' = d \<and> (\<exists>es. trace w' = trace w @ es \<and> filter is_commit es = [] \<and>
                 filter is_exec es = [] \<and> length (filter (is_rollback d) es) \<le> 1)"
  by (simp add: restoreOldAppFromHolding_def fsp_move_def emit_def Let_def
      split: option.splits)

lemma unzipApp_frame:
  "case unzipApp env a d w of (r, d', w') \<Rightarrow>
     d' = d \<and> (\<exists>es. trace w' = trace w @ es \<and> filter is_commit es = [] \<and>
                 length (filter (is_rollback d) es) \<le> 1 \<and>
                 (r = Resolved () \<longrightarrow> filter (is_rollback d) es = []) \<and>
                 length (filter is_exec es) \<le> Suc maxNumUnzipAttempts - attempt_or_1 a)"
proof (induction "Suc maxNumUnzipAttempts - attempt_or_1 a" arbitrary: a w)
  case 0
  then have "maxNumUnzipAttempts < attempt_or_1 a" by simp
  then show ?case
    using restore_frame [where env = env and d = d and w = w]
    by (auto simp: unzipApp_limit split: prod.splits promise.splits)
next
  case (Suc m)
  let ?n = "attempt_or_1 a"
  let ?cmd = "''unzip '' @ js_str (zipPath d)"
  from Suc.hyps(2) have le: "?n \<le> maxNumUnzipAttempts" by simp
  show ?case
  proof (cases "proc_ok env ?cmd ?n")
    case True
    then show ?thesis using le Suc.hyps(2) by (simp add: unzipApp_ok)
  next
    case False
    let ?w1 = "w\<lparr>trace := trace w @ failed_run env ?cmd ?n\<rparr>"
    have a': "attempt_or_1 (Some (?n + 1)) = Suc ?n" by (simp add: attempt_or_1_def)
    have m: "m = Suc maxNumUnzipAttempts - attempt_or_1 (Some (?n + 1))"
      using Suc.hyps(2) a' by simp
    have step: "unzipApp env a d w = unzipApp env (Some (?n + 1)) d ?w1"
      using le False by (rule unzipApp_fail)
    obtain r d' w' where res: "unzipApp env (Some (?n + 1)) d ?w1 = (r, d', w')"
      by (cases "unzipApp env (Some (?n + 1)) d ?w1") auto
    from Suc.hyps(1) [OF m, of ?w1] res a'
    obtain es where es: "d' = d" "trace w' = trace ?w1 @ es" "filter is_commit es = []"
      "length (filter (is_rollback d) es) \<le> 1"
      "r = Resolved () \<longrightarrow> filter (is_rollback d) es = []"
      "length (filter is_exec es) \<le> Suc maxNumUnzipAttempts - Suc ?n"
      by auto
    have "trace w' = trace w @ (failed_run env ?cmd ?n @ es)" using es(2) by simp
    moreover have "filter is_commit (failed_run env ?cmd ?n @ es) = []"
      using es(3) by (simp add: failed_run_def)
    moreover have "filter (is_rollback d) (failed_run env ?cmd ?n @ es) = filter (is_rollback d) es"
      by (simp add: failed_run_def)
    moreover have "length (filter is_exec (failed_run env ?cmd ?n @ es))
        \<le> Suc maxNumUnzipAttempts - ?n"
      using es(6) le by (simp add: failed_run_def)
    ultimately show ?thesis
      using step res es(1,4,5) by (simp del: append_assoc)
  qed
qed

lemma filter_exec_failed_runs:
  "filter is_exec (failed_runs env command ks) = map (\<lambda>k. Exec command) ks"
  by (induction ks) (simp_all add: failed_runs_def failed_run_def)

lemma new_events_append: "trace w' = trace w @ es \<Longrightarrow> new_events w w' = es"
  by (simp add: new_events_def)




lemma then_do_Resolved:
  "p d w = (Resolved u, d', w') \<Longrightarrow> then_do p f d w = f d' w'"
  by (simp add: then_do_def)

lemma then_do_Rejected:
  "p d w = (Rejected e, d', w') \<Longrightarrow> then_do p f d w = (Rejected e, d', w')"
  by (simp add: then_do_def)

lemma then_do_Pending:
  "p d w = (Pending, d', w') \<Longrightarrow> then_do p f d w = (Pending, d', w')"
  by (simp add: then_do_def)





text \<open>
  The same over a whole redeployment: the old app is staged, the five runs of \<open>unzip\<close>
  fail, the old app is moved back and \<open>download\<close> is rejected with the unzip-limit error.
\<close>

lemma redeploy_rolls_back_when_unzip_exhausted:
  "case download env_unzip_fails downloader0 world_redeploy of (r, d', w') \<Rightarrow>
     r = Rejected UnzipLimitError \<and>
     filter is_fs_call (new_events world_redeploy w')
       = [FsMove ''app'' ''app-holding'', FsMove ''app-holding'' ''app''] \<and>
     length (filter is_exec (new_events world_redeploy w')) = 5 \<and>
     dirs w' ''app'' = Some 1 \<and> dirs w' ''app-holding'' = None"
  by (simp add: step_defs fixture_defs path_basename_app outputPathFor_app new_events_def
      unzipApp_fail unzipApp_limit failed_run_def attempt_or_1_def maxNumUnzipAttempts_def Let_def)

text \<open>
  C3, as the code has it. \<open>removeOldApp\<close> returns the promise of \<open>fsp.remove\<close> into the
  chain of \<open>download\<close> without a rejection handler, so a failed removal of the holding
  directory is fatal: after a stage that succeeded (the app was there, the holding path
  was free) and an unpack that succeeded at attempt \<open>n\<close>, \<open>download\<close> is
  rejected with the removal error, the dependency installation is not run (the only
  commands run are the \<open>n\<close> runs of \<open>unzip\<close>) and no output path is returned. The disk is
  as the successful \<open>unzip\<close> left it: the new app is neither removed nor altered, and
  the old one is still in holding.
\<close>

theorem commit_failure_is_fatal:
  assumes cfg: "\<not> js_falsy (configBucket d)" "\<not> js_falsy (configKey d)"
    and ptr: "s3_get env (configBucket d) (configKey d) = ConfigBody b k"
    and out: "outputPathFor (path_basename k) = out" "out \<noteq> []"
    and old: "dirs w out = Some old"
    and free: "dirs w (holdingPathFor out) = None"
    and mv: "move_ok env out (holdingPathFor out)"
    and dl: "stream_ok env (Some b) (Some k)"
    and n: "1 \<le> n" "n \<le> maxNumUnzipAttempts"
    and fails: "\<forall>j\<in>{1..<n}. \<not> proc_ok env (''unzip '' @ path_basename k) j"
    and ok: "proc_ok env (''unzip '' @ path_basename k) n"
    and rm: "\<not> remove_ok env (holdingPathFor out)"
  shows "case download env d w of (r, d', w') \<Rightarrow>
           r = Rejected (RemoveError (holdingPathFor out)) \<and>
           dirs w' = ((dirs w)(out := None))(holdingPathFor out \<mapsto> old)
                       ++ proc_writes env (''unzip '' @ path_basename k) \<and>
           filter is_exec (new_events w w') = replicate n (Exec (''unzip '' @ path_basename k)) \<and>
           last (new_events w w') = FsRemove (holdingPathFor out)"
proof -
  let ?d1 = "d\<lparr>appBucket := Some b, appKey := Some k, zipPath := Some (path_basename k),
               outputPath := Some out\<rparr>"
  let ?d2 = "?d1\<lparr>originalPath := Some out, holdingPath := Some (holdingPathFor out)\<rparr>"
  let ?cmd = "''unzip '' @ path_basename k"
  let ?e3 = "[UiLine (''fetching current app version from '' @ js_str (configBucket d)
                        @ ''/'' @ js_str (configKey d)),
              S3GetObject (configBucket d) (configKey d), UiLine ''got config'',
              UiLine (''moving '' @ out @ '' to '' @ holdingPathFor out),
              FsMove out (holdingPathFor out),
              UiLine (''saving S3 object '' @ b @ ''/'' @ k @ '' to '' @ path_basename k),
              S3Stream (Some b) (Some k) (path_basename k)]"
  let ?w3 = "w\<lparr>trace := trace w @ ?e3,
               dirs := ((dirs w)(out := None))(holdingPathFor out \<mapsto> old)\<rparr>"
  let ?e4 = "failed_runs env ?cmd [1..<n] @ [Exec ?cmd, UiLine (''unzipped '' @ path_basename k)]"
  let ?w4 = "?w3\<lparr>dirs := dirs ?w3 ++ proc_writes env ?cmd, trace := trace ?w3 @ ?e4\<rparr>"
  have pre: "then_do (then_do (fetchCurrentVersion env) (moveOldAppIntoHolding env))
                (downloadAppZip env) d w = (Resolved (), ?d2, ?w3)"
    using ptr out old free mv dl by (simp add: step_defs Let_def)
  have 1: "attempt_or_1 None = 1" by (simp add: attempt_or_1_def)
  have z: "js_str (zipPath ?d2) = path_basename k" by (simp add: js_str_def)
  have unz: "unzipApp env None ?d2 ?w3 = (Resolved (), ?d2, ?w4)"
    using unzipApp_first_success [where a = None and n = n and env = env and d = ?d2 and w = ?w3]
      n fails ok unfolding 1 z by simp
  let ?w5 = "?w4\<lparr>trace := trace ?w4 @ [UiLine (''removing '' @ holdingPathFor out),
                                       FsRemove (holdingPathFor out)]\<rparr>"
  have rmv: "removeOldApp env ?d2 ?w4 = (Rejected (RemoveError (holdingPathFor out)), ?d2, ?w5)"
    using rm out(2)
    by (simp add: removeOldApp_def fsp_remove_def emit_def js_falsy_def js_str_def
        holdingPathFor_def Let_def)
  let ?P3 = "then_do (then_do (fetchCurrentVersion env) (moveOldAppIntoHolding env))
                (downloadAppZip env)"
  let ?P4 = "then_do ?P3 (unzipApp env None)"
  let ?P5 = "then_do ?P4 (removeOldApp env)"
  let ?P6 = "then_do ?P5 (installNPMDependencies env)"
  have "?P4 d w = unzipApp env None ?d2 ?w3"
    by (rule then_do_Resolved [where p = ?P3 and d = d and w = w, OF pre])
  then have s4: "?P4 d w = (Resolved (), ?d2, ?w4)"
    by (simp only: unz)
  have "?P5 d w = removeOldApp env ?d2 ?w4"
    by (rule then_do_Resolved [where p = ?P4 and d = d and w = w, OF s4])
  then have s5: "?P5 d w = (Rejected (RemoveError (holdingPathFor out)), ?d2, ?w5)"
    by (simp only: rmv)
  have s6: "?P6 d w = (Rejected (RemoveError (holdingPathFor out)), ?d2, ?w5)"
    by (rule then_do_Rejected [where p = ?P5 and d = d and w = w, OF s5])
  have "download env d w =
      then_do ?P6 (\<lambda>d w. (Resolved (outputPath d), d, w)) d w"
    using cfg by (simp add: download_def)
  also have "\<dots> = (Rejected (RemoveError (holdingPathFor out)), ?d2, ?w5)"
    by (rule then_do_Rejected [where p = ?P6 and d = d and w = w, OF s6])
  finally have res:
    "download env d w = (Rejected (RemoveError (holdingPathFor out)), ?d2, ?w5)" .
  have rep: "replicate (n - Suc 0) x @ [x] = replicate n x" for x :: event
    using n(1) by (cases n) (simp_all add: replicate_append_same)
  show ?thesis
    unfolding res
    by (simp add: new_events_def filter_exec_failed_runs map_replicate_const rep)
qed

theorem commit_failure_is_fatal_witness:
  "\<not> js_falsy (configBucket downloader0) \<and> \<not> js_falsy (configKey downloader0) \<and>
   s3_get env_third_then_commit_fails (configBucket downloader0) (configKey downloader0)
     = ConfigBody ''b'' ''releases/app-aaaa1111.zip'' \<and>
   outputPathFor (path_basename ''releases/app-aaaa1111.zip'') = ''app'' \<and>
   dirs world_redeploy ''app'' = Some 1 \<and>
   dirs world_redeploy (holdingPathFor ''app'') = None \<and>
   move_ok env_third_then_commit_fails ''app'' (holdingPathFor ''app'') \<and>
   stream_ok env_third_then_commit_fails (Some ''b'') (Some ''releases/app-aaaa1111.zip'') \<and>
   filter (proc_ok env_third_then_commit_fails ''unzip app-aaaa1111.zip'') [1..<3] = [] \<and>
   proc_ok env_third_then_commit_fails ''unzip app-aaaa1111.zip'' 3 \<and>
   \<not> remove_ok env_third_then_commit_fails (holdingPathFor ''app'') \<and>
   (case download env_third_then_commit_fails downloader0 world_redeploy of (r, d', w') \<Rightarrow>
      r = Rejected (RemoveError ''app-holding'') \<and>
      dirs w' ''app'' = Some 2 \<and> dirs w' ''app-holding'' = Some 1 \<and>
      filter is_exec (new_events world_redeploy w') = replicate 3 (Exec ''unzip app-aaaa1111.zip'') \<and>
      last (new_events world_redeploy w') = FsRemove ''app-holding'')"
  using commit_failure_is_fatal
    [where env = env_third_then_commit_fails and d = downloader0 and w = world_redeploy
       and b = "''b''" and k = "''releases/app-aaaa1111.zip''" and out = "''app''" and old = 1
       and n = 3]
  by (simp add: fixture_defs holdingPathFor_def js_falsy_def path_basename_app outputPathFor_app
      maxNumUnzipAttempts_def split: prod.splits)

text \<open>
  C3, as the claim has it, fails: with the removal refused, the deployment over a
  running app is rejected instead of reporting success.
\<close>

theorem commit_failure_rejects_download:
  "case download env_commit_fails downloader0 world_redeploy of (r, d', w') \<Rightarrow>
     r = Rejected (RemoveError ''app-holding'') \<and>
     calls world_redeploy w' =
       [S3GetObject (Some ''config-bucket'') (Some ''pointer.json''),
        FsMove ''app'' ''app-holding'',
        S3Stream (Some ''b'') (Some ''releases/app-aaaa1111.zip'') ''app-aaaa1111.zip'',
        Exec ''unzip app-aaaa1111.zip'', FsRemove ''app-holding''] \<and>
     dirs w' ''app'' = Some 2 \<and> dirs w' ''app-holding'' = Some 1"
  by (simp add: step_defs fixture_defs path_basename_app outputPathFor_app new_events_def
      calls_def unzipApp_ok attempt_or_1_def maxNumUnzipAttempts_def Let_def)

subsection \<open>File names without a hyphen\<close>

lemma outputPathFor_no_dash:
  "CHR ''-'' \<notin> set (path_basename_ext name ''.zip'') \<Longrightarrow> outputPathFor name = []"
  by (simp add: outputPathFor_def js_split_no_sep js_slice_0_m1_def)

lemma path_basename_nodash: "path_basename ''releases/app.zip'' = ''app.zip''"
  by (simp add: path_basename_def)

lemma outputPathFor_nodash: "outputPathFor ''app.zip'' = []"
  by (simp add: outputPathFor_def path_basename_ext_def path_basename_def js_slice_0_m1_def)

lemma path_basename_ext_nodash: "path_basename_ext ''app.zip'' ''.zip'' = ''app''"
  by (simp add: path_basename_ext_def path_basename_def)

text \<open>
  C6, as the code has it. For a file name whose stem holds no \<open>-\<close> the derived output
  path is the empty string, and nothing in \<open>download\<close> treats that as an error: the
  stage operation is skipped, and the deployment goes on from the state the fetch left
  with the download of the artifact, the unpack, the commit and the installation. When
  the download and the first run of \<open>unzip\<close> succeed and no holding path is recorded, it
  resolves with the empty string as its output path, having unpacked in the working
  directory and run \<open>cd  && npm install\<close>.
\<close>

theorem empty_outputPath_is_not_fatal:
  assumes cfg: "\<not> js_falsy (configBucket d)" "\<not> js_falsy (configKey d)"
    and ptr: "s3_get env (configBucket d) (configKey d) = ConfigBody b k"
    and nodash: "CHR ''-'' \<notin> set (path_basename_ext (path_basename k) ''.zip'')"
  shows "outputPathFor (path_basename k) = [] \<and>
     download env d w =
       then_do (then_do (then_do (then_do
          (downloadAppZip env)
          (unzipApp env None))
          (removeOldApp env))
          (installNPMDependencies env))
          (\<lambda>d w. (Resolved (outputPath d), d, w))
          (d\<lparr>appBucket := Some b, appKey := Some k, zipPath := Some (path_basename k),
             outputPath := Some []\<rparr>)
          (w\<lparr>trace := trace w @
               [UiLine (''fetching current app version from '' @ js_str (configBucket d)
                        @ ''/'' @ js_str (configKey d)),
                S3GetObject (configBucket d) (configKey d), UiLine ''got config'']\<rparr>) \<and>
     (stream_ok env (Some b) (Some k) \<and> proc_ok env (''unzip '' @ path_basename k) 1 \<and>
      js_falsy (holdingPath d) \<longrightarrow>
        (case download env d w of (r, d', w') \<Rightarrow>
           r = Resolved (Some []) \<and>
           calls w w' =
             [S3GetObject (configBucket d) (configKey d),
              S3Stream (Some b) (Some k) (path_basename k),
              Exec (''unzip '' @ path_basename k), Exec ''cd  && npm install'']))"
proof (intro conjI impI)
  show out: "outputPathFor (path_basename k) = []"
    using nodash by (rule outputPathFor_no_dash)
  let ?d1 = "d\<lparr>appBucket := Some b, appKey := Some k, zipPath := Some (path_basename k),
               outputPath := Some []\<rparr>"
  let ?w1 = "w\<lparr>trace := trace w @
               [UiLine (''fetching current app version from '' @ js_str (configBucket d)
                        @ ''/'' @ js_str (configKey d)),
                S3GetObject (configBucket d) (configKey d), UiLine ''got config'']\<rparr>"
  have pre: "then_do (fetchCurrentVersion env) (moveOldAppIntoHolding env) d w
               = (Resolved (), ?d1, ?w1)"
    using ptr out
    by (simp add: then_do_def fetchCurrentVersion_def moveOldAppIntoHolding_def emit_def
        js_falsy_def Let_def)
  show eq: "download env d w =
       then_do (then_do (then_do (then_do
          (downloadAppZip env)
          (unzipApp env None))
          (removeOldApp env))
          (installNPMDependencies env))
          (\<lambda>d w. (Resolved (outputPath d), d, w)) ?d1 ?w1"
    using cfg pre
    by (simp add: download_def then_do_def)
  assume ok: "stream_ok env (Some b) (Some k) \<and> proc_ok env (''unzip '' @ path_basename k) 1 \<and>
      js_falsy (holdingPath d)"
  show "case download env d w of (r, d', w') \<Rightarrow>
           r = Resolved (Some []) \<and>
           calls w w' =
             [S3GetObject (configBucket d) (configKey d),
              S3Stream (Some b) (Some k) (path_basename k),
              Exec (''unzip '' @ path_basename k), Exec ''cd  && npm install'']"
    unfolding eq using ok
    by (simp add: then_do_def downloadAppZip_def removeOldApp_def installNPMDependencies_def
        exec_cmd_def emit_def js_str_def unzipApp_ok attempt_or_1_def maxNumUnzipAttempts_def
        new_events_def calls_def Let_def)
qed

theorem empty_outputPath_is_not_fatal_witness:
  "\<not> js_falsy (configBucket downloader0) \<and> \<not> js_falsy (configKey downloader0) \<and>
   s3_get env_no_dash (configBucket downloader0) (configKey downloader0)
     = ConfigBody ''b'' ''releases/app.zip'' \<and>
   CHR ''-'' \<notin> set (path_basename_ext (path_basename ''releases/app.zip'') ''.zip'') \<and>
   outputPathFor (path_basename ''releases/app.zip'') = [] \<and>
   stream_ok env_no_dash (Some ''b'') (Some ''releases/app.zip'') \<and>
   proc_ok env_no_dash (''unzip '' @ path_basename ''releases/app.zip'') 1 \<and>
   js_falsy (holdingPath downloader0) \<and>
   (case download env_no_dash downloader0 world_redeploy of (r, d', w') \<Rightarrow>
      r = Resolved (Some []) \<and>
      calls world_redeploy w' =
        [S3GetObject (Some ''config-bucket'') (Some ''pointer.json''),
         S3Stream (Some ''b'') (Some ''releases/app.zip'') ''app.zip'',
         Exec ''unzip app.zip'', Exec ''cd  && npm install''])"
  using empty_outputPath_is_not_fatal
    [where env = env_no_dash and d = downloader0 and w = world_redeploy
       and b = "''b''" and k = "''releases/app.zip''"]
  by (simp add: fixture_defs js_falsy_def path_basename_nodash path_basename_ext_nodash
      split: prod.splits)

text \<open>
  C6, as the claim has it, fails for the artifact \<open>releases/app.zip\<close>: the deployment
  is not rejected, it unpacks and resolves with the empty output path.
\<close>

theorem no_dash_deployment_succeeds:
  "case download env_no_dash downloader0 world_first of (r, d', w') \<Rightarrow>
     r = Resolved (Some []) \<and>
     calls world_first w' =
       [S3GetObject (Some ''config-bucket'') (Some ''pointer.json''),
        S3Stream (Some ''b'') (Some ''releases/app.zip'') ''app.zip'',
        Exec ''unzip app.zip'', Exec ''cd  && npm install'']"
  by (simp add: step_defs fixture_defs path_basename_nodash outputPathFor_nodash new_events_def
      calls_def unzipApp_ok attempt_or_1_def maxNumUnzipAttempts_def Let_def)

subsection \<open>What the chain of \<open>download\<close> records and undoes\<close>

lemma undo_count_append: "undo_count d (es @ fs) = undo_count d es + undo_count d fs"
  by (simp add: undo_count_def)

lemma undo_count_le:
  "undo_count d es \<le> length (filter is_commit es) + length (filter (is_rollback d) es)"
  by (induction es) (auto simp: undo_count_def)

lemma commit_tail_frame:
  "case then_do (removeOldApp env) (then_do (installNPMDependencies env)
          (\<lambda>d w. (Resolved (outputPath d), d, w))) d w of
     (r, d', w') \<Rightarrow> d' = d \<and> (\<exists>es. trace w' = trace w @ es \<and> undo_count d es \<le> 1)"
  by (simp add: then_do_def removeOldApp_def installNPMDependencies_def exec_cmd_def
      fsp_remove_def emit_def undo_count_def Let_def)

lemma then_do_assoc: "then_do (then_do p f) g = then_do p (then_do f g)"
  by (intro ext) (simp add: then_do_def split: prod.splits promise.splits)

lemma unzip_tail_frame:
  "case then_do (unzipApp env None)
          (then_do (removeOldApp env) (then_do (installNPMDependencies env)
             (\<lambda>d w. (Resolved (outputPath d), d, w)))) d w of
     (r, d', w') \<Rightarrow> d' = d \<and> (\<exists>es. trace w' = trace w @ es \<and> undo_count d es \<le> 1)"
proof -
  let ?tail = "then_do (removeOldApp env) (then_do (installNPMDependencies env)
             (\<lambda>d w. (Resolved (outputPath d), d, w)))"
  obtain r1 d1 w1 where res: "unzipApp env None d w = (r1, d1, w1)"
    by (cases "unzipApp env None d w") auto
  with unzipApp_frame [where env = env and a = None and d = d and w = w]
  obtain es where es: "d1 = d" "trace w1 = trace w @ es" "filter is_commit es = []"
      "length (filter (is_rollback d) es) \<le> 1"
      "r1 = Resolved () \<longrightarrow> filter (is_rollback d) es = []"
    by auto
  show ?thesis
  proof (cases r1)
    case (Resolved u)
    then have zero: "undo_count d es = 0"
      using undo_count_le [of d es] es(3,5) by simp
    obtain r2 d2 w2 where res2: "?tail d w1 = (r2, d2, w2)"
      by (cases "?tail d w1") auto
    with commit_tail_frame [where env = env and d = d and w = w1]
    obtain fs where fs: "d2 = d" "trace w2 = trace w1 @ fs" "undo_count d fs \<le> 1"
      by auto
    have "then_do (unzipApp env None) ?tail d w = (r2, d2, w2)"
      using res Resolved es(1) res2 by (simp add: then_do_def)
    moreover have "trace w2 = trace w @ (es @ fs)" using es(2) fs(2) by simp
    moreover have "undo_count d (es @ fs) \<le> 1" using zero fs(3) by (simp add: undo_count_append)
    ultimately show ?thesis using fs(1) by (simp del: append_assoc)
  next
    case (Rejected e)
    then have "then_do (unzipApp env None) ?tail d w = (Rejected e, d1, w1)"
      using res by (simp add: then_do_def)
    moreover have "undo_count d es \<le> 1" using undo_count_le [of d es] es(3,4) by simp
    ultimately show ?thesis using es(1,2) by simp
  next
    case Pending
    then have "then_do (unzipApp env None) ?tail d w = (Pending, d1, w1)"
      using res by (simp add: then_do_def)
    moreover have "undo_count d es \<le> 1" using undo_count_le [of d es] es(3,4) by simp
    ultimately show ?thesis using es(1,2) by simp
  qed
qed

lemma download_tail_frame:
  "case then_do (downloadAppZip env) (then_do (unzipApp env None)
          (then_do (removeOldApp env) (then_do (installNPMDependencies env)
             (\<lambda>d w. (Resolved (outputPath d), d, w))))) d w of
     (r, d', w') \<Rightarrow> d' = d \<and> (\<exists>es. trace w' = trace w @ es \<and> undo_count d es \<le> 1)"
proof -
  let ?tail = "then_do (unzipApp env None)
          (then_do (removeOldApp env) (then_do (installNPMDependencies env)
             (\<lambda>d w. (Resolved (outputPath d), d, w))))"
  show ?thesis
  proof (cases "\<exists>z. zipPath d = Some z \<and> stream_ok env (appBucket d) (appKey d)")
    case False
    then show ?thesis
      by (auto simp: then_do_def downloadAppZip_def emit_def undo_count_def Let_def
          split: option.splits)
  next
    case True
    then obtain z where z: "zipPath d = Some z" "stream_ok env (appBucket d) (appKey d)"
      by auto
    let ?es = "[UiLine (''saving S3 object '' @ js_str (appBucket d) @ ''/'' @ js_str (appKey d)
                        @ '' to '' @ z), S3Stream (appBucket d) (appKey d) z]"
    let ?w1 = "w\<lparr>trace := trace w @ ?es\<rparr>"
    have dl: "downloadAppZip env d w = (Resolved (), d, ?w1)"
      using z by (simp add: downloadAppZip_def emit_def Let_def)
    obtain r2 d2 w2 where res2: "?tail d ?w1 = (r2, d2, w2)"
      by (cases "?tail d ?w1") auto
    with unzip_tail_frame [where env = env and d = d and w = ?w1]
    obtain fs where fs: "d2 = d" "trace w2 = trace ?w1 @ fs" "undo_count d fs \<le> 1"
      by auto
    have "then_do (downloadAppZip env) ?tail d w = ?tail d ?w1"
      by (rule then_do_Resolved [where p = "downloadAppZip env" and d = d and w = w, OF dl])
    then have "then_do (downloadAppZip env) ?tail d w = (r2, d2, w2)"
      by (simp only: res2)
    moreover have "trace w2 = trace w @ (?es @ fs)" using fs(2) by simp
    moreover have "undo_count d (?es @ fs) \<le> 1"
      using fs(3) by (simp add: undo_count_def)
    ultimately show ?thesis using fs(1) by (simp del: append_assoc append.simps)
  qed
qed

lemma holdingPathFor_neq: "holdingPathFor p \<noteq> p"
  by (simp add: holdingPathFor_def)

lemma stage_tail_frame:
  "case then_do (moveOldAppIntoHolding env) (then_do (downloadAppZip env)
          (then_do (unzipApp env None)
          (then_do (removeOldApp env) (then_do (installNPMDependencies env)
             (\<lambda>d w. (Resolved (outputPath d), d, w)))))) d w of
     (r, d', w') \<Rightarrow>
       (holdingPath d' = holdingPath d \<and> originalPath d' = originalPath d \<or>
        \<not> js_falsy (outputPath d') \<and> originalPath d' = outputPath d' \<and>
        holdingPath d' = Some (holdingPathFor (js_str (outputPath d')))) \<and>
       (\<exists>es. trace w' = trace w @ es \<and> undo_count d' es \<le> 1)"
proof -
  let ?tail = "then_do (downloadAppZip env) (then_do (unzipApp env None)
          (then_do (removeOldApp env) (then_do (installNPMDependencies env)
             (\<lambda>d w. (Resolved (outputPath d), d, w)))))"
  show ?thesis
  proof (cases "js_falsy (outputPath d)")
    case True
    then have "then_do (moveOldAppIntoHolding env) ?tail d w = ?tail d w"
      by (simp add: then_do_def moveOldAppIntoHolding_def)
    then show ?thesis
      using download_tail_frame [where env = env and d = d and w = w]
      by (auto split: prod.splits)
  next
    case False
    then obtain out where out: "outputPath d = Some out" "out \<noteq> []"
      by (auto simp: js_falsy_def split: option.splits)
    let ?d2 = "d\<lparr>originalPath := Some out, holdingPath := Some (holdingPathFor out)\<rparr>"
    let ?es = "[UiLine (''moving '' @ out @ '' to '' @ holdingPathFor out),
                FsMove out (holdingPathFor out)]"
    have zero: "undo_count ?d2 ?es = 0"
      using holdingPathFor_neq [of out] by (simp add: undo_count_def)
    have rec: "\<not> js_falsy (outputPath ?d2) \<and> originalPath ?d2 = outputPath ?d2 \<and>
        holdingPath ?d2 = Some (holdingPathFor (js_str (outputPath ?d2)))"
      using out by (simp add: js_falsy_def js_str_def)
    have "\<exists>r1 w1. moveOldAppIntoHolding env d w = (r1, ?d2, w1) \<and> trace w1 = trace w @ ?es"
      using out
      by (cases "dirs w out"; cases "move_ok env out (holdingPathFor out)")
         (simp_all add: moveOldAppIntoHolding_def fsp_move_def emit_def js_falsy_def js_str_def
           Let_def)
    then obtain r1 w1 where mv: "moveOldAppIntoHolding env d w = (r1, ?d2, w1)"
      and tr1: "trace w1 = trace w @ ?es"
      by blast
    show ?thesis
    proof (cases r1)
      case (Resolved u)
      obtain r2 d2 w2 where res2: "?tail ?d2 w1 = (r2, d2, w2)"
        by (cases "?tail ?d2 w1") auto
      with download_tail_frame [where env = env and d = ?d2 and w = w1]
      obtain fs where fs: "d2 = ?d2" "trace w2 = trace w1 @ fs" "undo_count ?d2 fs \<le> 1"
        by auto
      have "then_do (moveOldAppIntoHolding env) ?tail d w = (r2, d2, w2)"
        using mv Resolved res2 by (simp add: then_do_def)
      moreover have "trace w2 = trace w @ (?es @ fs)" using tr1 fs(2) by simp
      moreover have "undo_count ?d2 (?es @ fs) \<le> 1"
        using zero fs(3) by (simp only: undo_count_append)
      ultimately show ?thesis
        using fs(1) rec by (simp del: append_assoc append.simps)
    next
      case (Rejected e)
      then have "then_do (moveOldAppIntoHolding env) ?tail d w = (Rejected e, ?d2, w1)"
        using mv by (simp add: then_do_def)
      then show ?thesis using tr1 zero rec by (simp del: append.simps) 
    next
      case Pending
      then have "then_do (moveOldAppIntoHolding env) ?tail d w = (Pending, ?d2, w1)"
        using mv by (simp add: then_do_def)
      then show ?thesis using tr1 zero rec by (simp del: append.simps)
    qed
  qed
qed

lemma fetch_tail_frame:
  "case then_do (fetchCurrentVersion env) (then_do (moveOldAppIntoHolding env)
          (then_do (downloadAppZip env) (then_do (unzipApp env None)
          (then_do (removeOldApp env) (then_do (installNPMDependencies env)
             (\<lambda>d w. (Resolved (outputPath d), d, w))))))) d w of
     (r, d', w') \<Rightarrow>
       (holdingPath d' = holdingPath d \<and> originalPath d' = originalPath d \<or>
        \<not> js_falsy (outputPath d') \<and> originalPath d' = outputPath d' \<and>
        holdingPath d' = Some (holdingPathFor (js_str (outputPath d')))) \<and>
       (\<exists>es. trace w' = trace w @ es \<and> undo_count d' es \<le> 1)"
proof -
  let ?tail = "then_do (moveOldAppIntoHolding env)
          (then_do (downloadAppZip env) (then_do (unzipApp env None)
          (then_do (removeOldApp env) (then_do (installNPMDependencies env)
             (\<lambda>d w. (Resolved (outputPath d), d, w))))))"
  let ?e2 = "[UiLine (''fetching current app version from '' @ js_str (configBucket d)
                        @ ''/'' @ js_str (configKey d)),
              S3GetObject (configBucket d) (configKey d)]"
  show ?thesis
  proof (cases "s3_get env (configBucket d) (configKey d)")
    case RequestFailed
    then show ?thesis
      by (simp add: then_do_def fetchCurrentVersion_def emit_def undo_count_def Let_def)
  next
    case MalformedBody
    then show ?thesis
      by (simp add: then_do_def fetchCurrentVersion_def emit_def undo_count_def Let_def)
  next
    case (ConfigBody b k)
    let ?d1 = "d\<lparr>appBucket := Some b, appKey := Some k, zipPath := Some (path_basename k),
                 outputPath := Some (outputPathFor (path_basename k))\<rparr>"
    let ?es = "?e2 @ [UiLine ''got config'']"
    let ?w1 = "w\<lparr>trace := trace w @ ?es\<rparr>"
    have f: "fetchCurrentVersion env d w = (Resolved (), ?d1, ?w1)"
      using ConfigBody by (simp add: fetchCurrentVersion_def emit_def Let_def)
    obtain r2 d2 w2 where res2: "?tail ?d1 ?w1 = (r2, d2, w2)"
      by (cases "?tail ?d1 ?w1") auto
    with stage_tail_frame [where env = env and d = ?d1 and w = ?w1]
    obtain fs where fs:
      "holdingPath d2 = holdingPath ?d1 \<and> originalPath d2 = originalPath ?d1 \<or>
        \<not> js_falsy (outputPath d2) \<and> originalPath d2 = outputPath d2 \<and>
        holdingPath d2 = Some (holdingPathFor (js_str (outputPath d2)))"
      "trace w2 = trace ?w1 @ fs" "undo_count d2 fs \<le> 1"
      by auto
    have "then_do (fetchCurrentVersion env) ?tail d w = ?tail ?d1 ?w1"
      by (rule then_do_Resolved [where p = "fetchCurrentVersion env" and d = d and w = w, OF f])
    then have "then_do (fetchCurrentVersion env) ?tail d w = (r2, d2, w2)"
      by (simp only: res2)
    moreover have "trace w2 = trace w @ (?es @ fs)" using fs(2) by simp
    moreover have "undo_count d2 (?es @ fs) \<le> 1"
      using fs(3) by (simp add: undo_count_def)
    moreover have "holdingPath d2 = holdingPath d \<and> originalPath d2 = originalPath d \<or>
        \<not> js_falsy (outputPath d2) \<and> originalPath d2 = outputPath d2 \<and>
        holdingPath d2 = Some (holdingPathFor (js_str (outputPath d2)))"
      using fs(1) by simp
    ultimately show ?thesis by (simp del: append_assoc append.simps)
  qed
qed

lemma download_frame:
  "case download env d w of (r, d', w') \<Rightarrow>
       (holdingPath d' = holdingPath d \<and> originalPath d' = originalPath d \<or>
        \<not> js_falsy (outputPath d') \<and> originalPath d' = outputPath d' \<and>
        holdingPath d' = Some (holdingPathFor (js_str (outputPath d')))) \<and>
       (\<exists>es. trace w' = trace w @ es \<and> undo_count d' es \<le> 1)"
proof (cases "js_falsy (configBucket d) \<or> js_falsy (configKey d)")
  case True
  then show ?thesis by (simp add: download_def emit_def undo_count_def)
next
  case False
  then have "download env d w =
      then_do (fetchCurrentVersion env) (then_do (moveOldAppIntoHolding env)
          (then_do (downloadAppZip env) (then_do (unzipApp env None)
          (then_do (removeOldApp env) (then_do (installNPMDependencies env)
             (\<lambda>d w. (Resolved (outputPath d), d, w))))))) d w"
    by (simp add: download_def then_do_assoc)
  then show ?thesis
    using fetch_tail_frame [where env = env and d = d and w = w] by (simp only:)
qed

text \<open>
  C8, as the code has it. The holding path is recorded by the stage operation as soon
  as the output path is non-empty, before the move is attempted and whether or not it
  succeeds; commit and rollback leave the downloader as it is, so no operation clears
  the record. After any deployment attempt the recorded paths are either those from
  before the attempt or the pair for the attempt's output path, a record that was set
  stays set, and during the attempt commit (the removal) and rollback (the move back
  from holding) together run at most once.
\<close>

theorem holding_record_is_never_cleared:
  "(\<not> js_falsy (outputPath d) \<longrightarrow>
      (case moveOldAppIntoHolding env d w of (r, d', w') \<Rightarrow>
         originalPath d' = outputPath d \<and>
         holdingPath d' = Some (holdingPathFor (js_str (outputPath d))))) \<and>
   fst (snd (removeOldApp env d w)) = d \<and>
   fst (snd (restoreOldAppFromHolding env d w)) = d \<and>
   (case download env d w of (r, d', w') \<Rightarrow>
      (holdingPath d' = holdingPath d \<and> originalPath d' = originalPath d \<or>
       \<not> js_falsy (outputPath d') \<and> originalPath d' = outputPath d' \<and>
       holdingPath d' = Some (holdingPathFor (js_str (outputPath d')))) \<and>
      (\<not> js_falsy (holdingPath d) \<longrightarrow> \<not> js_falsy (holdingPath d')) \<and>
      undo_count d' (new_events w w') \<le> 1)"
proof (intro conjI)
  show "\<not> js_falsy (outputPath d) \<longrightarrow>
      (case moveOldAppIntoHolding env d w of (r, d', w') \<Rightarrow>
         originalPath d' = outputPath d \<and>
         holdingPath d' = Some (holdingPathFor (js_str (outputPath d))))"
    by (simp add: moveOldAppIntoHolding_def Let_def split: prod.splits)
  show "fst (snd (removeOldApp env d w)) = d"
    by (simp add: removeOldApp_def Let_def split: prod.splits)
  show "fst (snd (restoreOldAppFromHolding env d w)) = d"
    by (simp add: restoreOldAppFromHolding_def Let_def split: prod.splits)
  obtain r d' w' where res: "download env d w = (r, d', w')"
    by (cases "download env d w") auto
  with download_frame [where env = env and d = d and w = w]
  obtain es where es:
      "holdingPath d' = holdingPath d \<and> originalPath d' = originalPath d \<or>
       \<not> js_falsy (outputPath d') \<and> originalPath d' = outputPath d' \<and>
       holdingPath d' = Some (holdingPathFor (js_str (outputPath d')))"
      "trace w' = trace w @ es" "undo_count d' es \<le> 1"
    by auto
  have "\<not> js_falsy (holdingPath d) \<longrightarrow> \<not> js_falsy (holdingPath d')"
    using es(1) by (auto simp: js_falsy_def holdingPathFor_def)
  then show "case download env d w of (r, d', w') \<Rightarrow>
      (holdingPath d' = holdingPath d \<and> originalPath d' = originalPath d \<or>
       \<not> js_falsy (outputPath d') \<and> originalPath d' = outputPath d' \<and>
       holdingPath d' = Some (holdingPathFor (js_str (outputPath d')))) \<and>
      (\<not> js_falsy (holdingPath d) \<longrightarrow> \<not> js_falsy (holdingPath d')) \<and>
      undo_count d' (new_events w w') \<le> 1"
    using res es by (simp add: new_events_append)
qed

theorem holding_record_is_never_cleared_witness:
  "\<not> js_falsy (outputPath (downloader0\<lparr>outputPath := Some ''app''\<rparr>)) \<and>
   (case moveOldAppIntoHolding env_ok (downloader0\<lparr>outputPath := Some ''app''\<rparr>) world_first of
      (r, d', w') \<Rightarrow>
        r = Rejected (MoveError ''app'' ''app-holding'') \<and>
        originalPath d' = Some ''app'' \<and> holdingPath d' = Some ''app-holding'') \<and>
   fst (snd (removeOldApp env_ok downloader_staged world_staged)) = downloader_staged \<and>
   fst (snd (restoreOldAppFromHolding env_ok downloader_staged world_staged)) = downloader_staged \<and>
   \<not> js_falsy (holdingPath downloader_staged) \<and>
   (case download env_ok downloader_staged world_redeploy of (r, d', w') \<Rightarrow>
      r = Resolved (Some ''app'') \<and>
      \<not> js_falsy (holdingPath d') \<and> holdingPath d' = Some ''app-holding'' \<and>
      undo_count d' (new_events world_redeploy w') = 1) \<and>
   (case download env_unzip_fails downloader0 world_redeploy of (r, d', w') \<Rightarrow>
      r = Rejected UnzipLimitError \<and> holdingPath d' = Some ''app-holding'' \<and>
      undo_count d' (new_events world_redeploy w') = 1)"
  using holding_record_is_never_cleared
    [where env = env_ok and d = "downloader0\<lparr>outputPath := Some ''app''\<rparr>" and w = world_first]
    holding_record_is_never_cleared
    [where env = env_ok and d = downloader_staged and w = world_staged]
    holding_record_is_never_cleared
    [where env = env_ok and d = downloader_staged and w = world_redeploy]
    holding_record_is_never_cleared
    [where env = env_unzip_fails and d = downloader0 and w = world_redeploy]
  by (simp add: step_defs fixture_defs path_basename_app outputPathFor_app new_events_def
      undo_count_def unzipApp_ok unzipApp_fail unzipApp_limit failed_run_def attempt_or_1_def
      maxNumUnzipAttempts_def Let_def)

text \<open>
  C8, as the claim has it, fails after a successful redeployment: commit has removed
  the holding directory, and the holding path is still recorded.
\<close>

theorem holding_record_outlives_commit:
  "case download env_ok downloader0 world_redeploy of (r, d', w') \<Rightarrow>
     r = Resolved (Some ''app'') \<and> holdingPath d' = Some ''app-holding'' \<and>
     dirs w' ''app-holding'' = None \<and> dirs w' ''app'' = Some 2"
  by (simp add: step_defs fixture_defs path_basename_app outputPathFor_app new_events_def
      calls_def unzipApp_ok attempt_or_1_def maxNumUnzipAttempts_def Let_def)

end
